theory Spec2Isabelle
  imports Complex_Main "HOL-Library.Char_ord" "HOL-Library.List_Lexorder" "HOL-Library.Product_Lexorder"
begin

section \<open>Model parameters\<close>

text \<open>
  The constants of \<^verbatim>\<open>mir.py\<close>, lines 18 to 21. Sample rates are Python integers;
  lengths and token counts are natural numbers.
\<close>

definition JUKEBOX_SAMPLE_RATE :: int where
  "JUKEBOX_SAMPLE_RATE = 44100"

definition T :: nat where
  "T = 8192"

definition SAMPLE_LENGTH :: nat where
  "SAMPLE_LENGTH = 1048576"

definition DEPTH :: nat where
  "DEPTH = 36"

section \<open>Errors and arrays\<close>

text \<open>
  Every exception the script can raise is a value. \<open>LibraryError\<close> stands for whatever
  an external collaborator (librosa, numpy's file reader, the Jukebox library) raises.
\<close>

datatype error =
    AssertionError string
  | ValueError string
  | ZeroDivisionError
  | IndexError
  | RuntimeError
  | LibraryError string

text \<open>
  A numpy array or a torch tensor of floating-point numbers: its shape and its elements
  in row-major order. Every finite float is a real number; infinities and NaN are not
  part of the model. numpy's arithmetic in the preprocessing is taken as exact;
  torch's float32 arithmetic in the pooling, which rounds, is a parameter (\<open>torch_ops\<close>
  below). An array of the program always satisfies \<open>valid\<close>.
\<close>

record ndarray =
  shape :: "nat list"
  flat :: "real list"

definition valid :: "ndarray \<Rightarrow> bool" where
  "valid a = (length (flat a) = prod_list (shape a))"

definition ndim :: "ndarray \<Rightarrow> nat" where
  "ndim a = length (shape a)"

text \<open>\<^verbatim>\<open>a[np.newaxis]\<close>: a new leading axis of size one, same elements.\<close>

definition newaxis :: "ndarray \<Rightarrow> ndarray" where
  "newaxis a = a\<lparr>shape := 1 # shape a\<rparr>"

text \<open>
  \<^verbatim>\<open>a.mean(axis=0)\<close> on an array of shape \<open>(c, n)\<close>: element \<open>k\<close> of the result is the
  mean over the \<open>c\<close> channels of column \<open>k\<close>. (With \<open>c = 0\<close> numpy yields NaN, which the
  reals do not have; no statement below is about an array without channels.)
\<close>

definition mean_axis0 :: "ndarray \<Rightarrow> ndarray" where
  "mean_axis0 a =
     (let c = shape a ! 0; n = shape a ! 1
      in \<lparr>shape = [n],
          flat = map (\<lambda>k. (\<Sum>ch\<leftarrow>[0..<c]. flat a ! (ch * n + k)) / real c) [0..<n]\<rparr>)"

text \<open>\<^verbatim>\<open>a.flatten()\<close>: one axis holding all the elements.\<close>

definition flatten :: "ndarray \<Rightarrow> ndarray" where
  "flatten a = \<lparr>shape = [length (flat a)], flat = flat a\<rparr>"

text \<open>
  torch's float32 arithmetic, as far as the script uses it: the cast of one element by
  \<^verbatim>\<open>.type(torch.float32)\<close>, and the mean of a sequence of float32 elements as
  \<^verbatim>\<open>.mean\<close> computes it. Both round, and torch does not fix the order in which the
  reduction adds, so both are parameters of the model.
\<close>

record torch_ops =
  to_float32 :: "real \<Rightarrow> real"
  mean32 :: "real list \<Rightarrow> real"

section \<open>Audio preprocessing\<close>

text \<open>
  \<^verbatim>\<open>librosa.resample\<close> is an external collaborator: a parameter of the model, which
  may raise.
\<close>

type_synonym resampler = "ndarray \<Rightarrow> int \<Rightarrow> int \<Rightarrow> error + ndarray"

text \<open>
  \<^verbatim>\<open>preprocess_audio\<close>, lines 26 to 41. \<^verbatim>\<open>np.abs(audio).max()\<close> raises ValueError on
  an array without elements. The division \<^verbatim>\<open>audio /= norm_factor\<close> acts on the array
  that \<^verbatim>\<open>mean\<close> allocated, never on the caller's array.
\<close>

definition preprocess_audio :: "resampler \<Rightarrow> ndarray \<Rightarrow> int \<Rightarrow> error + ndarray" where
  "preprocess_audio resample audio sr =
     (case resample audio sr JUKEBOX_SAMPLE_RATE of
        Inl e \<Rightarrow> Inl e
      | Inr audio1 \<Rightarrow>
          let audio2 = (if ndim audio1 = 1 then newaxis audio1 else audio1)
          in if ndim audio2 \<noteq> 2
             then Inl (AssertionError ''audio must have shape (n_channels, n_samples)'')
             else
               let audio3 = mean_axis0 audio2
               in if flat audio3 = []
                  then Inl (ValueError ''zero-size array to reduction operation maximum which has no identity'')
                  else
                    let norm_factor = Max (set (map abs (flat audio3)));
                        audio4 = (if norm_factor > 0
                                  then audio3\<lparr>flat := map (\<lambda>x. x / norm_factor) (flat audio3)\<rparr>
                                  else audio3)
                    in Inr (flatten audio4))"

section \<open>Padding\<close>

text \<open>
  \<^verbatim>\<open>audio_padding\<close>, lines 49 to 53. \<^verbatim>\<open>audio.shape[0]\<close> raises IndexError on a
  zero-dimensional array, \<^verbatim>\<open>np.zeros\<close> raises ValueError on a negative length, and
  \<^verbatim>\<open>np.concatenate\<close> raises ValueError unless both arrays have one axis.
\<close>

definition audio_padding :: "ndarray \<Rightarrow> nat \<Rightarrow> error + ndarray" where
  "audio_padding audio target_length =
     (case shape audio of
        [] \<Rightarrow> Inl IndexError
      | n # rest \<Rightarrow>
          let padding_length = int target_length - int n
          in if padding_length < 0 then Inl (ValueError ''negative dimensions are not allowed'')
             else if rest \<noteq> [] then Inl (ValueError ''all the input arrays must have same number of dimensions'')
             else Inr \<lparr>shape = [n + nat padding_length],
                       flat = flat audio @ replicate (nat padding_length) 0\<rparr>)"

text \<open>The zero padding step of \<^verbatim>\<open>get_acts_from_array\<close>, lines 126 to 128.\<close>

definition zero_padding :: "ndarray \<Rightarrow> error + ndarray" where
  "zero_padding audio =
     (case shape audio of
        [] \<Rightarrow> Inl IndexError
      | n # rest \<Rightarrow>
          if n < SAMPLE_LENGTH then audio_padding audio SAMPLE_LENGTH else Inr audio)"

section \<open>Tokenization\<close>

text \<open>
  The codec is an external collaborator. Its \<^verbatim>\<open>encode\<close> returns one code tensor per
  level; a code tensor is modelled by its elements in row-major order, which is what
  \<^verbatim>\<open>flatten\<close> yields.
\<close>

record vqvae =
  encode :: "ndarray \<Rightarrow> error + int list list"

text \<open>\<^verbatim>\<open>a[:k]\<close>: the first \<open>k\<close> entries along the first axis.\<close>

definition slice_to :: "nat \<Rightarrow> ndarray \<Rightarrow> error + ndarray" where
  "slice_to k a =
     (case shape a of
        [] \<Rightarrow> Inl IndexError
      | n # rest \<Rightarrow>
          Inr \<lparr>shape = min k n # rest, flat = take (min k n * prod_list rest) (flat a)\<rparr>)"

text \<open>\<^verbatim>\<open>a[np.newaxis, :, np.newaxis]\<close>.\<close>

definition batch_channel :: "ndarray \<Rightarrow> error + ndarray" where
  "batch_channel a =
     (case shape a of
        [] \<Rightarrow> Inl IndexError
      | n # rest \<Rightarrow> Inr (a\<lparr>shape := 1 # n # 1 # rest\<rparr>))"

text \<open>
  \<^verbatim>\<open>get_z\<close>, lines 56 to 69. The result stands for a tensor of shape \<open>(1, length z)\<close>;
  \<^verbatim>\<open>zs[-1]\<close> raises IndexError on an empty list.
\<close>

definition get_z :: "ndarray \<Rightarrow> vqvae \<Rightarrow> error + int list" where
  "get_z audio vq =
     (case slice_to (nat (JUKEBOX_SAMPLE_RATE * 25)) audio of
        Inl e \<Rightarrow> Inl e
      | Inr audio1 \<Rightarrow>
          (case batch_channel audio1 of
             Inl e \<Rightarrow> Inl e
           | Inr audio2 \<Rightarrow>
               (case encode vq audio2 of
                  Inl e \<Rightarrow> Inl e
                | Inr zs \<Rightarrow>
                    if zs = [] then Inl IndexError
                    else
                      let z = last zs
                      in if length z < 8192
                         then Inl (ValueError ''Audio file is not long enough'')
                         else Inr z)))"

section \<open>Conditioning\<close>

text \<open>
  The hyperparameter bundle as \<^verbatim>\<open>load_vqvae_and_prior\<close> builds it (lines 161 to 168);
  \<^verbatim>\<open>sample_length\<close> is absent until \<^verbatim>\<open>get_cond\<close> sets it.
\<close>

record hps =
  sr :: int
  n_samples :: int
  name :: string
  levels :: int
  hop_fraction :: "real list"
  sample_length :: "int option"

record meta =
  artist :: string
  genre :: string
  total_length :: int
  offset :: int
  lyrics :: string

text \<open>
  The loaded prior: its downsampling factor, the flag \<^verbatim>\<open>prior.only_encode\<close> that the
  script writes, and the library routines the script calls, each of which may raise.
  \<open>prior_get_cond\<close> is \<^verbatim>\<open>top_prior.get_cond(None, y)\<close> without the third component
  \<^verbatim>\<open>prime\<close>, which the script drops; \<open>forward\<close> is \<^verbatim>\<open>top_prior.prior.forward\<close> with
  \<^verbatim>\<open>encoder_kv=None, fp16=False\<close>, given the flag's value at the call. The routines are
  functions of their arguments: only \<open>forward\<close> is given the flag. \<open>torch\<close> is the
  arithmetic of the tensors that \<open>forward\<close> returns.
\<close>

record ('l, 'y) prior =
  raw_to_tokens :: int
  only_encode :: bool
  get_batch_labels :: "meta list \<Rightarrow> error + 'l"
  get_y :: "'l \<Rightarrow> int \<Rightarrow> error + 'y"
  prior_get_cond :: "'y \<Rightarrow> error + ndarray \<times> ndarray"
  forward :: "bool \<Rightarrow> int list \<Rightarrow> ndarray \<Rightarrow> ndarray \<Rightarrow> error + ndarray"
  torch :: torch_ops

text \<open>\<^verbatim>\<open>a[0, :k][np.newaxis, ...]\<close> and \<^verbatim>\<open>a[0][np.newaxis, ...]\<close>.\<close>

definition first_rows :: "nat \<Rightarrow> ndarray \<Rightarrow> error + ndarray" where
  "first_rows k a =
     (case shape a of
        b # t # rest \<Rightarrow>
          if b = 0 then Inl IndexError
          else Inr \<lparr>shape = 1 # min k t # rest,
                    flat = take (min k t * prod_list rest) (flat a)\<rparr>
      | _ \<Rightarrow> Inl IndexError)"

definition first_item :: "ndarray \<Rightarrow> error + ndarray" where
  "first_item a =
     (case shape a of
        b # rest \<Rightarrow>
          if b = 0 then Inl IndexError
          else Inr \<lparr>shape = 1 # rest, flat = take (prod_list rest) (flat a)\<rparr>
      | [] \<Rightarrow> Inl IndexError)"

text \<open>
  \<^verbatim>\<open>get_cond\<close>, lines 72 to 100. The assignment to \<^verbatim>\<open>hps.sample_length\<close> mutates the
  caller's bundle, so the updated bundle is returned with the result. The floor
  division raises ZeroDivisionError before the assignment when \<^verbatim>\<open>raw_to_tokens\<close> is 0.
\<close>

definition get_cond ::
  "'a hps_scheme \<Rightarrow> ('l, 'y) prior \<Rightarrow> 'a hps_scheme \<times> (error + ndarray \<times> ndarray)" where
  "get_cond h top_prior =
     (let sample_length_in_seconds = 62
      in if raw_to_tokens top_prior = 0 then (h, Inl ZeroDivisionError)
         else
           let v = ((sample_length_in_seconds * sr h) div raw_to_tokens top_prior)
                     * raw_to_tokens top_prior;
               h' = h\<lparr>sample_length := Some v\<rparr>;
               metas = replicate (nat (n_samples h'))
                         \<lparr>artist = ''unknown'', genre = ''unknown'', total_length = v,
                          offset = 0, lyrics = ''lyrics go here!!!''\<rparr>
           in (h',
               case get_batch_labels top_prior metas of
                 Inl e \<Rightarrow> Inl e
               | Inr labels \<Rightarrow>
                   (case get_y top_prior labels 0 of
                      Inl e \<Rightarrow> Inl e
                    | Inr y \<Rightarrow>
                        (case prior_get_cond top_prior y of
                           Inl e \<Rightarrow> Inl e
                         | Inr (x_cond, y_cond) \<Rightarrow>
                             (case first_rows T x_cond of
                                Inl e \<Rightarrow> Inl e
                              | Inr x_cond' \<Rightarrow>
                                  (case first_item y_cond of
                                     Inl e \<Rightarrow> Inl e
                                   | Inr y_cond' \<Rightarrow> Inr (x_cond', y_cond')))))))"

section \<open>Activation extraction\<close>

text \<open>
  \<^verbatim>\<open>get_final_activations\<close>, lines 103 to 114: \<^verbatim>\<open>z[:, :T]\<close>, the write to
  \<^verbatim>\<open>only_encode\<close>, one forward pass.
\<close>

definition get_final_activations ::
  "int list \<Rightarrow> ndarray \<Rightarrow> ndarray \<Rightarrow> ('l, 'y) prior \<Rightarrow> ('l, 'y) prior \<times> (error + ndarray)" where
  "get_final_activations z x_cond y_cond top_prior =
     (let x = take T z;
          top_prior' = top_prior\<lparr>only_encode := True\<rparr>
      in (top_prior', forward top_prior' (only_encode top_prior') x x_cond y_cond))"

section \<open>Pooling\<close>

text \<open>\<^verbatim>\<open>a.squeeze()\<close>: every axis of size one is dropped.\<close>

definition squeeze :: "ndarray \<Rightarrow> ndarray" where
  "squeeze a = a\<lparr>shape := filter (\<lambda>d. d \<noteq> 1) (shape a)\<rparr>"

text \<open>
  \<^verbatim>\<open>a.view(m, -1, c)\<close> on a contiguous tensor: the elements stay where they are and the
  middle size is inferred. torch raises RuntimeError on a negative \<open>m\<close>, when \<open>m * c\<close>
  is zero, and when \<open>m * c\<close> does not divide the number of elements.
\<close>

definition view3 :: "int \<Rightarrow> nat \<Rightarrow> ndarray \<Rightarrow> error + ndarray" where
  "view3 m c a =
     (if m < 0 then Inl RuntimeError
      else if nat m * c = 0 then Inl RuntimeError
      else if length (flat a) mod (nat m * c) \<noteq> 0 then Inl RuntimeError
      else Inr \<lparr>shape = [nat m, length (flat a) div (nat m * c), c], flat = flat a\<rparr>)"

text \<open>\<^verbatim>\<open>a.type(torch.float32)\<close>: every element is cast.\<close>

definition type_float32 :: "torch_ops \<Rightarrow> ndarray \<Rightarrow> ndarray" where
  "type_float32 ops a = a\<lparr>flat := map (to_float32 ops) (flat a)\<rparr>"

text \<open>
  \<^verbatim>\<open>a.mean(dim=1)\<close> on a tensor of shape \<open>(m, w, c)\<close>: element \<open>(i, k)\<close> of the result is
  torch's mean of the elements \<open>(i, 0, k)\<close> to \<open>(i, w - 1, k)\<close>.
\<close>

definition mean_dim1 :: "torch_ops \<Rightarrow> ndarray \<Rightarrow> ndarray" where
  "mean_dim1 ops a =
     (let m = shape a ! 0; w = shape a ! 1; c = shape a ! 2
      in \<lparr>shape = [m, c],
          flat = concat (map (\<lambda>i. map (\<lambda>k. mean32 ops (map (\<lambda>j. flat a ! ((i * w + j) * c + k))
                                                             [0..<w]))
                                     [0..<c])
                           [0..<m])\<rparr>)"

text \<open>
  The postprocessing of \<^verbatim>\<open>get_acts_from_array\<close>, lines 140 to 147. \<^verbatim>\<open>acts.size(0)\<close>
  raises IndexError on a tensor without axes; the remainder raises ZeroDivisionError
  for \<^verbatim>\<open>meanpool = 0\<close> before the assertion compares it. Python's \<^verbatim>\<open>%\<close> on integers is
  \<open>mod\<close> on \<open>int\<close>: both take the sign of the divisor.
\<close>

definition pooling :: "torch_ops \<Rightarrow> ndarray \<Rightarrow> int \<Rightarrow> error + ndarray" where
  "pooling ops out meanpool =
     (let acts = type_float32 ops (squeeze out)
      in case shape acts of
           [] \<Rightarrow> Inl IndexError
         | r # rest \<Rightarrow>
             if meanpool = 0 then Inl ZeroDivisionError
             else if int r mod meanpool \<noteq> 0
             then Inl (AssertionError ''The 'meanpool' param must be divisible by 8192. '')
             else
               (case view3 meanpool 4800 acts of
                  Inl e \<Rightarrow> Inl e
                | Inr acts' \<Rightarrow> Inr (mean_dim1 ops acts')))"

section \<open>The pipeline for one input\<close>

text \<open>
  \<^verbatim>\<open>get_acts_from_array\<close>, lines 123 to 147. The bundle and the prior are mutable
  objects shared with the caller: their state after the call is returned with the
  result, also when the call raises.
\<close>

definition get_acts_from_array ::
  "resampler \<Rightarrow> ndarray \<Rightarrow> int \<Rightarrow> hps \<Rightarrow> vqvae \<Rightarrow> ('l, 'y) prior \<Rightarrow> int
     \<Rightarrow> (hps \<times> ('l, 'y) prior) \<times> (error + ndarray)" where
  "get_acts_from_array resample audio rate h vq top_prior meanpool =
     (case preprocess_audio resample audio rate of
        Inl e \<Rightarrow> ((h, top_prior), Inl e)
      | Inr audio1 \<Rightarrow>
          (case zero_padding audio1 of
             Inl e \<Rightarrow> ((h, top_prior), Inl e)
           | Inr audio2 \<Rightarrow>
               (case get_z audio2 vq of
                  Inl e \<Rightarrow> ((h, top_prior), Inl e)
                | Inr z \<Rightarrow>
                    (case get_cond h top_prior of
                       (h', Inl e) \<Rightarrow> ((h', top_prior), Inl e)
                     | (h', Inr (x_cond, y_cond)) \<Rightarrow>
                         (case get_final_activations z x_cond y_cond top_prior of
                            (top_prior', Inl e) \<Rightarrow> ((h', top_prior'), Inl e)
                          | (top_prior', Inr acts) \<Rightarrow>
                              ((h', top_prior'), pooling (torch top_prior') acts meanpool))))))"

section \<open>The batch driver\<close>

text \<open>
  A path is a directory and a file name. An entry of the file system is an array file,
  a file \<^verbatim>\<open>np.load\<close> cannot read, or a directory; \<open>dirs\<close> are the directories a file
  can be created in.
\<close>

type_synonym path = "string \<times> string"

datatype entry = NpyFile ndarray | OtherFile | Directory

record filesystem =
  dirs :: "string set"
  files :: "path \<Rightarrow> entry option"

definition path_exists :: "filesystem \<Rightarrow> path \<Rightarrow> bool" where
  "path_exists fs p = (files fs p \<noteq> None)"

definition np_load :: "filesystem \<Rightarrow> path \<Rightarrow> error + ndarray" where
  "np_load fs p =
     (case files fs p of
        Some (NpyFile a) \<Rightarrow> Inr a
      | Some OtherFile \<Rightarrow> Inl (LibraryError ''ValueError'')
      | Some Directory \<Rightarrow> Inl (LibraryError ''IsADirectoryError'')
      | None \<Rightarrow> Inl (LibraryError ''FileNotFoundError''))"

definition np_save :: "filesystem \<Rightarrow> path \<Rightarrow> ndarray \<Rightarrow> error + filesystem" where
  "np_save fs p a =
     (if fst p \<notin> dirs fs then Inl (LibraryError ''FileNotFoundError'')
      else if files fs p = Some Directory then Inl (LibraryError ''IsADirectoryError'')
      else Inr (fs\<lparr>files := (files fs)(p \<mapsto> NpyFile a)\<rparr>))"

text \<open>\<^verbatim>\<open>str.endswith\<close>, \<^verbatim>\<open>str.rfind\<close> and pathlib's \<^verbatim>\<open>stem\<close>.\<close>

definition endswith :: "string \<Rightarrow> string \<Rightarrow> bool" where
  "endswith s suffix = (length suffix \<le> length s \<and> drop (length s - length suffix) s = suffix)"

definition rfind :: "char \<Rightarrow> string \<Rightarrow> int" where
  "rfind c s =
     (case filter (\<lambda>i. s ! i = c) (rev [0..<length s]) of
        [] \<Rightarrow> - 1
      | i # _ \<Rightarrow> int i)"

definition stem :: "string \<Rightarrow> string" where
  "stem nm =
     (let i = rfind (CHR ''.'') nm
      in if 0 < i \<and> i < int (length nm) - 1 then take (nat i) nm else nm)"

text \<open>
  librosa: the resampler, and \<^verbatim>\<open>lr.load(fpath, sr=...)\<close>, which reads an input file.
  The driver writes array files only, so what \<open>lr_load\<close> reads does not change
  during a run.
\<close>

record audio_lib =
  lr_resample :: resampler
  lr_load :: "path \<Rightarrow> int \<Rightarrow> error + ndarray"

text \<open>\<^verbatim>\<open>load_audio_from_file\<close>, lines 44 to 46.\<close>

definition load_audio_from_file :: "audio_lib \<Rightarrow> path \<Rightarrow> error + ndarray" where
  "load_audio_from_file lib fpath =
     (case lr_load lib fpath JUKEBOX_SAMPLE_RATE of
        Inl e \<Rightarrow> Inl e
      | Inr audio \<Rightarrow> preprocess_audio (lr_resample lib) audio JUKEBOX_SAMPLE_RATE)"

text \<open>\<^verbatim>\<open>get_acts_from_file\<close>, lines 117 to 120.\<close>

definition get_acts_from_file ::
  "audio_lib \<Rightarrow> path \<Rightarrow> hps \<Rightarrow> vqvae \<Rightarrow> ('l, 'y) prior \<Rightarrow> int
     \<Rightarrow> (hps \<times> ('l, 'y) prior) \<times> (error + ndarray)" where
  "get_acts_from_file lib fpath h vq top_prior meanpool =
     (case load_audio_from_file lib fpath of
        Inl e \<Rightarrow> ((h, top_prior), Inl e)
      | Inr audio \<Rightarrow>
          get_acts_from_array (lr_resample lib) audio JUKEBOX_SAMPLE_RATE h vq top_prior meanpool)"

text \<open>
  \<^verbatim>\<open>load_vqvae_and_prior\<close>, lines 150 to 182: the bundle is built here, the two models
  by the Jukebox library.
\<close>

record ('l, 'y) jukebox =
  make_vqvae :: "string \<Rightarrow> string \<Rightarrow> error + vqvae"
  make_prior :: "string \<Rightarrow> vqvae \<Rightarrow> string \<Rightarrow> error + ('l, 'y) prior"

definition load_vqvae_and_prior ::
  "('l, 'y) jukebox \<Rightarrow> string \<Rightarrow> string \<Rightarrow> string \<Rightarrow> error + vqvae \<times> ('l, 'y) prior \<times> hps" where
  "load_vqvae_and_prior jb vqvae_path prior_path device =
     (let h = \<lparr>sr = 44100, n_samples = 8, name = ''samples'', levels = 3,
                hop_fraction = [0.5, 0.5, 0.125], sample_length = None\<rparr>
      in case make_vqvae jb vqvae_path device of
           Inl e \<Rightarrow> Inl e
         | Inr vq \<Rightarrow>
             (case make_prior jb prior_path vq device of
                Inl e \<Rightarrow> Inl e
              | Inr top_prior \<Rightarrow> Inr (vq, top_prior, h)))"

text \<open>
  What the loop of \<^verbatim>\<open>embed_from_folder\<close> reads and writes: the bundle, the prior and
  the file system.
\<close>

record ('l, 'y) world =
  w_hps :: hps
  w_prior :: "('l, 'y) prior"
  w_fs :: filesystem

text \<open>
  The loop of \<^verbatim>\<open>embed_from_folder\<close>, lines 204 to 218, with the flag of line 193 as
  its first argument. An exception ends the loop: the state reached and the exception
  are returned.
\<close>

fun embed_loop ::
  "bool \<Rightarrow> audio_lib \<Rightarrow> string \<Rightarrow> vqvae \<Rightarrow> int \<Rightarrow> path list \<Rightarrow> ('l, 'y) world
     \<Rightarrow> ('l, 'y) world \<times> error option" where
  "embed_loop USING_CACHED_FILE lib output_dir vq average_pool_slices [] w = (w, None)"
| "embed_loop USING_CACHED_FILE lib output_dir vq average_pool_slices (input_path # rest) w =
     (let output_path = (output_dir, stem (snd input_path) @ ''.npy'')
      in if path_exists (w_fs w) output_path \<and> USING_CACHED_FILE
         then
           (case np_load (w_fs w) output_path of
              Inl e \<Rightarrow> (w, Some e)
            | Inr cached \<Rightarrow>
                embed_loop USING_CACHED_FILE lib output_dir vq average_pool_slices rest w)
         else
           (case get_acts_from_file lib input_path (w_hps w) vq (w_prior w) average_pool_slices of
              ((h', top_prior'), Inl e) \<Rightarrow> (w\<lparr>w_hps := h', w_prior := top_prior'\<rparr>, Some e)
            | ((h', top_prior'), Inr repr) \<Rightarrow>
                (case np_save (w_fs w) output_path repr of
                   Inl e \<Rightarrow> (w\<lparr>w_hps := h', w_prior := top_prior'\<rparr>, Some e)
                 | Inr fs' \<Rightarrow>
                     embed_loop USING_CACHED_FILE lib output_dir vq average_pool_slices rest
                       \<lparr>w_hps = h', w_prior = top_prior', w_fs = fs'\<rparr>)))"

text \<open>
  \<^verbatim>\<open>embed_from_folder\<close>, lines 185 to 218. \<open>names\<close> is what \<^verbatim>\<open>input_dir.iterdir()\<close>
  lists; paths of one directory are sorted by their names, character by character.
  The bundle and the models are local to the call: what remains is the file system and
  the exception, if any.
\<close>

definition embed_from_folder ::
  "audio_lib \<Rightarrow> ('l, 'y) jukebox \<Rightarrow> string list \<Rightarrow> filesystem
     \<Rightarrow> string \<Rightarrow> string \<Rightarrow> string \<Rightarrow> string \<Rightarrow> int \<Rightarrow> string \<Rightarrow> filesystem \<times> error option" where
  "embed_from_folder lib jb names fs input_dir output_dir vqvae_path prior_path
       average_pool_slices device =
     (let USING_CACHED_FILE = False;
          input_paths = sort (map (\<lambda>n. (input_dir, n)) names);
          input_paths' = filter (\<lambda>x. endswith (snd x) ''.wav'') input_paths
      in case load_vqvae_and_prior jb vqvae_path prior_path device of
           Inl e \<Rightarrow> (fs, Some e)
         | Inr (vq, top_prior, h) \<Rightarrow>
             (case embed_loop USING_CACHED_FILE lib output_dir vq average_pool_slices input_paths'
                     \<lparr>w_hps = h, w_prior = top_prior, w_fs = fs\<rparr> of
                (w, r) \<Rightarrow> (w_fs w, r)))"

section \<open>Arrays as objects\<close>

text \<open>
  A numpy array is an object that refers to a buffer, and a view shares the buffer of
  its base. The heap is the list of the buffers allocated so far; an array is a buffer
  and a shape. This is the model of \<^verbatim>\<open>preprocess_audio\<close> in which its in-place division
  could change an array of the caller.
\<close>

type_synonym heap = "real list list"

record array_ref =
  buf :: nat
  dims :: "nat list"

definition read_array :: "heap \<Rightarrow> array_ref \<Rightarrow> ndarray" where
  "read_array h a = \<lparr>shape = dims a, flat = h ! buf a\<rparr>"

definition alloc :: "heap \<Rightarrow> ndarray \<Rightarrow> heap \<times> array_ref" where
  "alloc h v = (h @ [flat v], \<lparr>buf = length h, dims = shape v\<rparr>)"

text \<open>
  \<^verbatim>\<open>librosa.resample\<close> on objects: it does not write to its argument, and it returns a
  new array, or, when the result is its argument as it stands and \<open>returns_input\<close>
  holds, the argument itself (librosa does so when both rates are equal).
\<close>

definition resample_heap ::
  "resampler \<Rightarrow> bool \<Rightarrow> heap \<Rightarrow> array_ref \<Rightarrow> int \<Rightarrow> int \<Rightarrow> heap \<times> (error + array_ref)" where
  "resample_heap resample returns_input h audio orig_sr target_sr =
     (case resample (read_array h audio) orig_sr target_sr of
        Inl e \<Rightarrow> (h, Inl e)
      | Inr v \<Rightarrow>
          if returns_input \<and> v = read_array h audio then (h, Inr audio)
          else (case alloc h v of (h', a) \<Rightarrow> (h', Inr a)))"

text \<open>
  \<^verbatim>\<open>preprocess_audio\<close>, lines 26 to 41, on objects: \<^verbatim>\<open>audio[np.newaxis]\<close> is a view of
  the same buffer, \<^verbatim>\<open>mean\<close> and \<^verbatim>\<open>flatten\<close> allocate, and \<^verbatim>\<open>audio /= norm_factor\<close>
  overwrites the buffer of the array it is applied to.
\<close>

definition preprocess_audio_heap ::
  "resampler \<Rightarrow> bool \<Rightarrow> heap \<Rightarrow> array_ref \<Rightarrow> int \<Rightarrow> heap \<times> (error + array_ref)" where
  "preprocess_audio_heap resample returns_input h audio rate =
     (case resample_heap resample returns_input h audio rate JUKEBOX_SAMPLE_RATE of
        (h1, Inl e) \<Rightarrow> (h1, Inl e)
      | (h1, Inr audio1) \<Rightarrow>
          let audio2 = (if length (dims audio1) = 1 then audio1\<lparr>dims := 1 # dims audio1\<rparr>
                        else audio1)
          in if length (dims audio2) \<noteq> 2
             then (h1, Inl (AssertionError ''audio must have shape (n_channels, n_samples)''))
             else
               (case alloc h1 (mean_axis0 (read_array h1 audio2)) of
                  (h2, audio3) \<Rightarrow>
                    if h2 ! buf audio3 = []
                    then (h2, Inl (ValueError ''zero-size array to reduction operation maximum which has no identity''))
                    else
                      let norm_factor = Max (set (map abs (h2 ! buf audio3)));
                          h3 = (if norm_factor > 0
                                then h2[buf audio3 := map (\<lambda>x. x / norm_factor) (h2 ! buf audio3)]
                                else h2)
                      in (case alloc h3 (flatten (read_array h3 audio3)) of
                            (h4, out) \<Rightarrow> (h4, Inr out))))"

text \<open>What a call returns, read from the heap it leaves: the error or the array.\<close>

definition result_value :: "heap \<times> (error + array_ref) \<Rightarrow> error + ndarray" where
  "result_value r = (case snd r of Inl e \<Rightarrow> Inl e | Inr a \<Rightarrow> Inr (read_array (fst r) a))"

section \<open>Reading results and sample inputs\<close>

text \<open>Element \<open>(i, k)\<close> of a two-dimensional array.\<close>

definition elem2 :: "ndarray \<Rightarrow> nat \<Rightarrow> nat \<Rightarrow> real" where
  "elem2 a i k = flat a ! (i * (shape a ! 1) + k)"

text \<open>An activation tensor of the pipeline's shape whose element number \<open>j\<close> is \<open>j\<close>.\<close>

definition ramp :: "nat \<Rightarrow> real list" where
  "ramp n = map real [0..<n]"

definition ramp_acts :: ndarray where
  "ramp_acts = \<lparr>shape = [8192, 4800], flat = ramp (8192 * 4800)\<rparr>"


definition round_half_even :: "real \<Rightarrow> int" where
  "round_half_even x =
     (let f = \<lfloor>x\<rfloor>
      in if x - of_int f < 1 / 2 then f
         else if 1 / 2 < x - of_int f then f + 1
         else if even f then f else f + 1)"

definition round32 :: "real \<Rightarrow> real" where
  "round32 x =
     (if x = 0 then 0
      else
        let e = max \<lfloor>log 2 \<bar>x\<bar>\<rfloor> (- 126);
            u = 2 powr of_int (e - 23)
        in of_int (round_half_even (x / u)) * u)"

definition float32_ops :: torch_ops where
  "float32_ops =
     \<lparr>to_float32 = round32,
      mean32 = (\<lambda>xs. round32 (foldl (\<lambda>s x. round32 (s + x)) 0 xs / real (length xs)))\<rparr>"


text \<open>A bundle and a prior to run the model on: routines that return small constants.\<close>

definition demo_hps :: hps where
  "demo_hps = \<lparr>sr = 44100, n_samples = 8, name = ''samples'', levels = 3,
                hop_fraction = [0.5, 0.5, 0.125], sample_length = None\<rparr>"

definition demo_prior :: "(unit, unit) prior" where
  "demo_prior =
     \<lparr>raw_to_tokens = 128, only_encode = False,
      get_batch_labels = (\<lambda>metas. Inr ()),
      get_y = (\<lambda>labels i. Inr ()),
      prior_get_cond = (\<lambda>y. Inr (\<lparr>shape = [8, 1, 1], flat = replicate 8 0\<rparr>,
                                   \<lparr>shape = [8, 1], flat = replicate 8 0\<rparr>)),
      forward = (\<lambda>flag x x_cond y_cond. Inr ramp_acts),
      torch = float32_ops\<rparr>"

text \<open>
  The buffer that \<^verbatim>\<open>preprocess_audio\<close> normalises (lines 31 to 34): the resampled array
  \<open>a1\<close>, given a channel axis when it has none, averaged over its channels.
\<close>

definition downmix :: "ndarray \<Rightarrow> real list" where
  "downmix a1 = flat (mean_axis0 (if ndim a1 = 1 then newaxis a1 else a1))"

text \<open>
  A resampler for inputs that are already at the target rate, which librosa returns as
  they are; and two buffers: two channels of one sample each that cancel, and a mono
  buffer of two samples.
\<close>

definition same_rate :: resampler where
  "same_rate a orig_sr target_sr =
     (if orig_sr = target_sr then Inr a else Inl (LibraryError ''resampling is not modelled''))"

definition stereo_cancel :: ndarray where
  "stereo_cancel = \<lparr>shape = [2, 1], flat = [1, - 1]\<rparr>"

definition mono_pair :: ndarray where
  "mono_pair = \<lparr>shape = [2], flat = [1 / 2, - 2]\<rparr>"

text \<open>The output path of an input path (line 206).\<close>

definition output_path_of :: "string \<Rightarrow> path \<Rightarrow> path" where
  "output_path_of output_dir input_path = (output_dir, stem (snd input_path) @ ''.npy'')"

text \<open>
  Collaborators for sample runs: a codec whose coarsest level has 10 tokens and one
  whose coarsest level has 8192; an audio library that loads the mono buffer above
  from every file of the directory \<^verbatim>\<open>in\<close>; a Jukebox library that returns the given
  codec and the sample prior; and a file system where \<^verbatim>\<open>out/track1.npy\<close> exists.
\<close>

definition short_vq :: vqvae where
  "short_vq = \<lparr>encode = (\<lambda>a. Inr [[], [], replicate 10 0])\<rparr>"

definition long_vq :: vqvae where
  "long_vq = \<lparr>encode = (\<lambda>a. Inr [[], [], replicate 8192 0])\<rparr>"

definition demo_lib :: audio_lib where
  "demo_lib =
     \<lparr>lr_resample = same_rate,
      lr_load = (\<lambda>p rate. if fst p = ''in'' then Inr mono_pair
                           else Inl (LibraryError ''FileNotFoundError''))\<rparr>"

definition demo_jukebox :: "vqvae \<Rightarrow> (unit, unit) jukebox" where
  "demo_jukebox vq =
     \<lparr>make_vqvae = (\<lambda>vqvae_path device. Inr vq),
      make_prior = (\<lambda>prior_path vq' device. Inr demo_prior)\<rparr>"

definition demo_fs :: filesystem where
  "demo_fs =
     \<lparr>dirs = {''in'', ''out''},
      files = [(''out'', ''track1.npy'') \<mapsto> NpyFile \<lparr>shape = [1], flat = [7]\<rparr>]\<rparr>"


section \<open>Pooling: shape and rows of the result\<close>

lemma length_concat_map_upt:
  assumes "\<And>i. i < m \<Longrightarrow> length (f i) = c"
  shows "length (concat (map f [0..<m])) = m * c"
  using assms by (induction m) simp_all

lemma concat_map_upt_nth:
  assumes "\<And>i. i < m \<Longrightarrow> length (f i) = c" and "i < m" and "k < c"
  shows "concat (map f [0..<m]) ! (i * c + k) = f i ! k"
  using assms
proof (induction m)
  case 0
  then show ?case by simp
next
  case (Suc m)
  have len: "length (concat (map f [0..<m])) = m * c"
    using Suc.prems(1) by (simp add: length_concat_map_upt)
  show ?case
  proof (cases "i < m")
    case True
    then have "i * c + k < m * c"
    proof -
      from True have "Suc i \<le> m" by simp
      then have "Suc i * c \<le> m * c" by (rule mult_le_mono1)
      with \<open>k < c\<close> show ?thesis by simp
    qed
    with True Suc show ?thesis by (simp add: nth_append len)
  next
    case False
    with Suc.prems(2) have "i = m" by simp
    then show ?thesis by (simp add: nth_append len)
  qed
qed

lemma view3_rows:
  assumes "0 < m" and "0 < c" and "length (flat a) = r * c" and "nat m dvd r"
  shows "view3 m c a = Inr \<lparr>shape = [nat m, r div nat m, c], flat = flat a\<rparr>"
proof -
  from assms(4) obtain w where r: "r = nat m * w" by (auto simp: dvd_def)
  have "length (flat a) = (nat m * c) * w" using assms(3) r by simp
  moreover have "0 < nat m * c" using assms by simp
  ultimately show ?thesis using assms(1) r by (simp add: view3_def)
qed

lemma mean_dim1_shape:
  "shape (mean_dim1 ops \<lparr>shape = [m, w, c], flat = xs\<rparr>) = [m, c]"
  by (simp add: mean_dim1_def)

lemma mean_dim1_valid:
  "valid (mean_dim1 ops \<lparr>shape = [m, w, c], flat = xs\<rparr>)"
  by (simp add: mean_dim1_def valid_def length_concat_map_upt)

lemma mean_dim1_elem:
  assumes "i < m" and "k < c"
  shows "elem2 (mean_dim1 ops \<lparr>shape = [m, w, c], flat = xs\<rparr>) i k
           = mean32 ops (map (\<lambda>j. xs ! ((i * w + j) * c + k)) [0..<w])"
proof -
  let ?f = "\<lambda>i. map (\<lambda>k. mean32 ops (map (\<lambda>j. xs ! ((i * w + j) * c + k)) [0..<w])) [0..<c]"
  have "concat (map ?f [0..<m]) ! (i * c + k) = ?f i ! k"
    using assms by (intro concat_map_upt_nth) simp_all
  also have "\<dots> = mean32 ops (map (\<lambda>j. xs ! ((i * w + j) * c + k)) [0..<w])"
    using assms by simp
  finally show ?thesis by (simp add: elem2_def mean_dim1_def)
qed

lemma cast_squeeze_rows:
  assumes "shape acts = [r, 4800]" and "r \<noteq> 1"
  shows "type_float32 ops (squeeze acts)
           = \<lparr>shape = [r, 4800], flat = map (to_float32 ops) (flat acts)\<rparr>"
  using assms by (simp add: type_float32_def squeeze_def)

lemma pooling_rows:
  assumes "shape acts = [r, 4800]" and "valid acts" and "r \<noteq> 1" and "0 < m" and "nat m dvd r"
  shows "\<exists>out. pooling ops acts m = Inr out \<and> shape out = [nat m, 4800] \<and> valid out
           \<and> (\<forall>i<nat m. \<forall>k<4800. elem2 out i k
                 = mean32 ops (map (\<lambda>j. to_float32 ops (elem2 acts (i * (r div nat m) + j) k))
                                [0..<r div nat m]))"
proof -
  let ?w = "r div nat m"
  let ?xs = "map (to_float32 ops) (flat acts)"
  let ?out = "mean_dim1 ops \<lparr>shape = [nat m, ?w, 4800], flat = ?xs\<rparr>"
  note sq = cast_squeeze_rows [OF assms(1,3), of ops]
  have len: "length (flat acts) = r * 4800" using assms(1,2) by (simp add: valid_def)
  have r: "r = nat m * ?w" using assms(5) by simp
  have "int r mod m = 0"
  proof -
    from assms(5) have "int (nat m) dvd int r" by (simp only: int_dvd_int_iff)
    with assms(4) show ?thesis by simp
  qed
  moreover have "view3 m 4800 \<lparr>shape = [r, 4800], flat = ?xs\<rparr>
             = Inr \<lparr>shape = [nat m, ?w, 4800], flat = ?xs\<rparr>"
    using view3_rows [of m 4800 "\<lparr>shape = [r, 4800], flat = ?xs\<rparr>" r] assms(4,5) len
    by simp
  ultimately have p: "pooling ops acts m = Inr ?out"
    using assms(4) by (simp add: pooling_def sq)
  have e: "elem2 ?out i k
             = mean32 ops (map (\<lambda>j. to_float32 ops (elem2 acts (i * ?w + j) k)) [0..<?w])"
    if i: "i < nat m" and k: "k < 4800" for i k
  proof -
    have "?xs ! ((i * ?w + j) * 4800 + k) = to_float32 ops (elem2 acts (i * ?w + j) k)"
      if j: "j < ?w" for j
    proof -
      from i have "Suc i * ?w \<le> nat m * ?w" by (intro mult_le_mono1) simp
      with j r have "i * ?w + j < r" by simp
      then have "Suc (i * ?w + j) * 4800 \<le> r * 4800" by (intro mult_le_mono1) simp
      with k have "(i * ?w + j) * 4800 + k < length (flat acts)" by (simp add: len)
      then show ?thesis using assms(1) by (simp add: elem2_def)
    qed
    then have "map (\<lambda>j. ?xs ! ((i * ?w + j) * 4800 + k)) [0..<?w]
                 = map (\<lambda>j. to_float32 ops (elem2 acts (i * ?w + j) k)) [0..<?w]"
      by (intro map_cong) simp_all
    then show ?thesis by (simp only: mean_dim1_elem [OF i k])
  qed
  show ?thesis
  proof (intro exI conjI allI impI)
    show "pooling ops acts m = Inr ?out" by (rule p)
    show "shape ?out = [nat m, 4800]" by (rule mean_dim1_shape)
    show "valid ?out" by (rule mean_dim1_valid)
  next
    fix i k :: nat
    assume "i < nat m" and "k < 4800"
    then show "elem2 ?out i k
                 = mean32 ops (map (\<lambda>j. to_float32 ops (elem2 acts (i * ?w + j) k)) [0..<?w])"
      by (rule e)
  qed
qed

lemma length_ramp: "length (ramp n) = n"
  by (simp add: ramp_def)


















section \<open>Pooling: when it fails\<close>

lemma pooling_not_dvd:
  assumes "shape acts = [r, 4800]" and "r \<noteq> 1" and "meanpool \<noteq> 0" and "\<not> meanpool dvd int r"
  shows "pooling ops acts meanpool
           = Inl (AssertionError ''The 'meanpool' param must be divisible by 8192. '')"
proof -
  note sq = cast_squeeze_rows [OF assms(1,2), of ops]
  have "int r mod meanpool \<noteq> 0" using assms(4) by (simp add: dvd_eq_mod_eq_0)
  then show ?thesis using assms(3) by (simp add: pooling_def sq)
qed

lemma pooling_zero:
  assumes "shape acts = [r, 4800]" and "r \<noteq> 1"
  shows "pooling ops acts 0 = Inl ZeroDivisionError"
  by (simp add: pooling_def cast_squeeze_rows [OF assms, of ops])

lemma pooling_negative_dvd:
  assumes "shape acts = [r, 4800]" and "r \<noteq> 1" and "meanpool < 0" and "meanpool dvd int r"
  shows "pooling ops acts meanpool = Inl RuntimeError"
proof -
  note sq = cast_squeeze_rows [OF assms(1,2), of ops]
  have "int r mod meanpool = 0" using assms(4) by (simp add: dvd_eq_mod_eq_0)
  then show ?thesis using assms(3) by (simp add: pooling_def sq view3_def)
qed

text \<open>
  Claim C5, as amended. On an activation tensor of shape \<open>(8192, 4800)\<close>: the window count
  0 raises ZeroDivisionError in the divisibility test itself; every other window count
  that does not divide 8192 raises the assertion failure; for every divisor of 8192
  the assertion passes; and the pooling step returns exactly for the positive divisors
  of 8192 (a negative divisor passes the assertion and fails in the reshape).
\<close>

theorem pooling_divisibility:
  assumes "shape acts = [8192, 4800]" and "valid acts"
  shows "pooling ops acts 0 = Inl ZeroDivisionError
       \<and> (meanpool \<noteq> 0 \<and> \<not> meanpool dvd 8192 \<longrightarrow>
            pooling ops acts meanpool
              = Inl (AssertionError ''The 'meanpool' param must be divisible by 8192. ''))
       \<and> (meanpool dvd 8192 \<longrightarrow>
            pooling ops acts meanpool
              \<noteq> Inl (AssertionError ''The 'meanpool' param must be divisible by 8192. ''))
       \<and> ((\<exists>out. pooling ops acts meanpool = Inr out) = (0 < meanpool \<and> meanpool dvd 8192))"
proof -
  have z: "pooling ops acts 0 = Inl ZeroDivisionError"
    using assms(1) pooling_zero [of acts 8192 ops] by simp
  have n: "pooling ops acts meanpool
              = Inl (AssertionError ''The 'meanpool' param must be divisible by 8192. '')"
    if "meanpool \<noteq> 0" and "\<not> meanpool dvd 8192"
    using assms(1) that pooling_not_dvd [of acts 8192 meanpool ops] by simp
  have neg: "pooling ops acts meanpool = Inl RuntimeError" if "meanpool < 0" and "meanpool dvd 8192"
    using assms(1) that pooling_negative_dvd [of acts 8192 meanpool ops] by simp
  have pos: "\<exists>out. pooling ops acts meanpool = Inr out" if "0 < meanpool" and "meanpool dvd 8192"
  proof -
    from that have "int (nat meanpool) dvd int 8192" by simp
    then have "nat meanpool dvd 8192" by (simp only: int_dvd_int_iff)
    with assms that(1) pooling_rows [of acts 8192 meanpool ops] show ?thesis by auto
  qed
  have nz: "meanpool \<noteq> 0" if "meanpool dvd 8192"
    using that by auto
  have d: "pooling ops acts meanpool
              \<noteq> Inl (AssertionError ''The 'meanpool' param must be divisible by 8192. '')"
    if "meanpool dvd 8192"
  proof (cases "0 < meanpool")
    case True
    with pos that show ?thesis by auto
  next
    case False
    with nz [OF that] have "meanpool < 0" by simp
    with neg that show ?thesis by simp
  qed
  have iff: "(\<exists>out. pooling ops acts meanpool = Inr out) = (0 < meanpool \<and> meanpool dvd 8192)"
  proof (cases "meanpool = 0")
    case True
    with z show ?thesis by simp
  next
    case nzero: False
    show ?thesis
    proof (cases "meanpool dvd 8192")
      case True
      show ?thesis
      proof (cases "0 < meanpool")
        case True
        with pos \<open>meanpool dvd 8192\<close> show ?thesis by simp
      next
        case False
        with nzero have "meanpool < 0" by simp
        with neg True show ?thesis by simp
      qed
    next
      case False
      with n nzero show ?thesis by simp
    qed
  qed
  from z n d iff show ?thesis by blast
qed

theorem pooling_divisibility_witness:
  "pooling float32_ops ramp_acts 0 = Inl ZeroDivisionError
   \<and> pooling float32_ops ramp_acts 7 = Inl (AssertionError ''The 'meanpool' param must be divisible by 8192. '')
   \<and> pooling float32_ops ramp_acts 64 \<noteq> Inl (AssertionError ''The 'meanpool' param must be divisible by 8192. '')
   \<and> (\<exists>out. pooling float32_ops ramp_acts 64 = Inr out)"
proof -
  have s: "shape ramp_acts = [8192, 4800]" by (simp add: ramp_acts_def)
  have v: "valid ramp_acts" by (simp add: ramp_acts_def valid_def length_ramp)
  have d: "(64::int) dvd 8192" "\<not> (7::int) dvd 8192" by simp_all
  from pooling_divisibility [OF s v, of float32_ops 7] pooling_divisibility [OF s v, of float32_ops 64] d
  show ?thesis by simp
qed

text \<open>
  The claim as stated fails at the window count 0, which is no divisor of 8192 and
  raises ZeroDivisionError, not the assertion failure; and at \<open>- 32\<close>, which divides 8192
  and for which the pooling step does not return.
\<close>

theorem pooling_zero_counterexample:
  "\<not> (0::int) dvd 8192
   \<and> pooling float32_ops ramp_acts 0 \<noteq> Inl (AssertionError ''The 'meanpool' param must be divisible by 8192. '')
   \<and> (- 32::int) dvd 8192
   \<and> (\<nexists>out. pooling float32_ops ramp_acts (- 32) = Inr out)"
proof -
  have s: "shape ramp_acts = [8192, 4800]" by (simp add: ramp_acts_def)
  have "pooling float32_ops ramp_acts 0 = Inl ZeroDivisionError"
    using s pooling_zero [of ramp_acts 8192 float32_ops] by simp
  moreover have "pooling float32_ops ramp_acts (- 32) = Inl RuntimeError"
    using s pooling_negative_dvd [of ramp_acts 8192 "- 32" float32_ops] by simp
  ultimately show ?thesis by simp
qed

section \<open>Padding\<close>

text \<open>
  Claim C4. A one-dimensional buffer shorter than \<open>SAMPLE_LENGTH = 1048576\<close> is padded to
  exactly that length: its first samples are the original buffer and the rest are
  zeros. A buffer of that length or longer is returned as it is, neither padded nor
  truncated.
\<close>

theorem zero_padding_spec:
  assumes "shape audio = [n]" and "valid audio"
  shows "(n < SAMPLE_LENGTH \<longrightarrow>
           (\<exists>out. zero_padding audio = Inr out \<and> shape out = [SAMPLE_LENGTH]
              \<and> length (flat out) = SAMPLE_LENGTH
              \<and> take n (flat out) = flat audio
              \<and> drop n (flat out) = replicate (SAMPLE_LENGTH - n) 0))
       \<and> (SAMPLE_LENGTH \<le> n \<longrightarrow> zero_padding audio = Inr audio)"
  using assms by (auto simp: zero_padding_def audio_padding_def Let_def valid_def)

theorem zero_padding_spec_witness:
  "zero_padding \<lparr>shape = [2], flat = [1, - 1]\<rparr>
     = Inr \<lparr>shape = [1048576], flat = [1, - 1] @ replicate 1048574 0\<rparr>
   \<and> zero_padding \<lparr>shape = [1048577], flat = replicate 1048577 1\<rparr>
     = Inr \<lparr>shape = [1048577], flat = replicate 1048577 1\<rparr>"
proof -
  let ?a = "\<lparr>shape = [2], flat = [1, - 1]\<rparr>"
  let ?b = "\<lparr>shape = [1048577], flat = replicate 1048577 1\<rparr>"
  have va: "valid ?a" and vb: "valid ?b" by (simp_all add: valid_def)
  obtain out where o: "zero_padding ?a = Inr out" "shape out = [SAMPLE_LENGTH]"
      "take 2 (flat out) = flat ?a" "drop 2 (flat out) = replicate (SAMPLE_LENGTH - 2) 0"
    using zero_padding_spec [of ?a 2, OF _ va] by (auto simp: SAMPLE_LENGTH_def)
  have "flat out = take 2 (flat out) @ drop 2 (flat out)" by simp
  also have "\<dots> = [1, - 1] @ replicate 1048574 0" using o(3,4) by (simp add: SAMPLE_LENGTH_def)
  finally have a: "out = \<lparr>shape = [1048576], flat = [1, - 1] @ replicate 1048574 0\<rparr>"
    using o(2) by (simp add: SAMPLE_LENGTH_def)
  have b: "zero_padding ?b = Inr ?b"
    using zero_padding_spec [of ?b 1048577, OF _ vb] by (simp add: SAMPLE_LENGTH_def)
  from a b o(1) show ?thesis by simp
qed

section \<open>Conditioning and the hyperparameter bundle\<close>

lemma get_acts_from_array_hps:
  "fst (fst (get_acts_from_array res audio rate h vq tp m)) = h
   \<or> fst (fst (get_acts_from_array res audio rate h vq tp m)) = fst (get_cond h tp)"
  by (simp add: get_acts_from_array_def get_final_activations_def Let_def
      split: sum.splits prod.splits)

lemma get_acts_from_array_prior:
  "snd (fst (get_acts_from_array res audio rate h vq tp m)) = tp
   \<or> snd (fst (get_acts_from_array res audio rate h vq tp m)) = tp\<lparr>only_encode := True\<rparr>"
  by (simp add: get_acts_from_array_def get_final_activations_def Let_def
      split: sum.splits prod.splits)

lemma get_cond_hps_cases:
  "fst (get_cond h tp) = h \<or> (\<exists>v. fst (get_cond h tp) = h\<lparr>sample_length := Some v\<rparr>)"
  by (auto simp: get_cond_def Let_def)

lemma get_cond_sample_length_irrelevant:
  "snd (get_cond (h\<lparr>sample_length := x\<rparr>) tp) = snd (get_cond h tp)"
  by (simp add: get_cond_def Let_def)

lemma get_cond_only_encode_irrelevant:
  "snd (get_cond h (tp\<lparr>only_encode := b\<rparr>)) = snd (get_cond h tp)"
  by (simp add: get_cond_def Let_def cong: sum.case_cong)

lemma get_cond_after_get_cond:
  "snd (get_cond (fst (get_cond h tp)) tp') = snd (get_cond h tp')"
  using get_cond_hps_cases [of h tp] by (auto simp: get_cond_sample_length_irrelevant)

lemma get_cond_after_pipeline:
  "snd (get_cond (fst (fst (get_acts_from_array res audio rate h vq tp m)))
                 (snd (fst (get_acts_from_array res audio rate h vq tp m))))
     = snd (get_cond h tp)"
  using get_acts_from_array_hps [of res audio rate h vq tp m]
        get_acts_from_array_prior [of res audio rate h vq tp m]
  by (auto simp: get_cond_after_get_cond get_cond_only_encode_irrelevant)

lemma get_acts_from_file_hps:
  "fst (fst (get_acts_from_file lib p h vq tp m)) = h
   \<or> fst (fst (get_acts_from_file lib p h vq tp m)) = fst (get_cond h tp)"
  using get_acts_from_array_hps [of "lr_resample lib" _ JUKEBOX_SAMPLE_RATE h vq tp m]
  by (auto simp: get_acts_from_file_def split: sum.splits)

lemma get_acts_from_file_prior:
  "snd (fst (get_acts_from_file lib p h vq tp m)) = tp
   \<or> snd (fst (get_acts_from_file lib p h vq tp m)) = tp\<lparr>only_encode := True\<rparr>"
  using get_acts_from_array_prior [of "lr_resample lib" _ JUKEBOX_SAMPLE_RATE h vq tp m]
  by (auto simp: get_acts_from_file_def split: sum.splits)

lemma get_cond_after_file:
  "snd (get_cond (fst (fst (get_acts_from_file lib p h vq tp m)))
                 (snd (fst (get_acts_from_file lib p h vq tp m))))
     = snd (get_cond h tp)"
  using get_acts_from_file_hps [of lib p h vq tp m] get_acts_from_file_prior [of lib p h vq tp m]
  by (auto simp: get_cond_after_get_cond get_cond_only_encode_irrelevant)

lemma get_cond_after_loop:
  "snd (get_cond (w_hps (fst (embed_loop c lib od vq m ps w)))
                 (w_prior (fst (embed_loop c lib od vq m ps w))))
     = snd (get_cond (w_hps w) (w_prior w))"
proof (induction ps arbitrary: w)
  case Nil
  show ?case by simp
next
  case (Cons p ps)
  obtain h' tp' r where g: "get_acts_from_file lib p (w_hps w) vq (w_prior w) m = ((h', tp'), r)"
    by (metis prod.exhaust)
  have k: "snd (get_cond h' tp') = snd (get_cond (w_hps w) (w_prior w))"
    using get_cond_after_file [of lib p "w_hps w" vq "w_prior w" m] by (simp add: g)
  show ?case
    using Cons.IH [of w]
          Cons.IH [of "\<lparr>w_hps = h', w_prior = tp', w_fs = fs'\<rparr>" for fs']
    by (cases c) (auto simp: Let_def g k split: sum.splits)
qed

text \<open>
  Claim C10. When the prior's \<open>raw_to_tokens\<close> is not zero, a call of \<open>get_cond\<close> returns
  the bundle with \<open>sample_length\<close> set to \<open>((62 * sr) div raw_to_tokens) * raw_to_tokens\<close>
  and every other field as it was; a second call leaves that bundle as it is, and so
  does every later run of the pipeline on any audio, whatever the state of the prior's
  flag.
\<close>

theorem get_cond_sets_sample_length:
  assumes "raw_to_tokens top_prior \<noteq> 0"
  shows "fst (get_cond h top_prior)
           = h\<lparr>sample_length :=
                 Some (((62 * sr h) div raw_to_tokens top_prior) * raw_to_tokens top_prior)\<rparr>
       \<and> fst (get_cond (fst (get_cond h top_prior)) top_prior) = fst (get_cond h top_prior)
       \<and> fst (fst (get_acts_from_array res audio rate (fst (get_cond h top_prior)) vq
                     (top_prior\<lparr>only_encode := b\<rparr>) m))
           = fst (get_cond h top_prior)"
proof -
  have a: "fst (get_cond h top_prior)
           = h\<lparr>sample_length :=
                 Some (((62 * sr h) div raw_to_tokens top_prior) * raw_to_tokens top_prior)\<rparr>"
    and b: "fst (get_cond (fst (get_cond h top_prior)) (top_prior\<lparr>only_encode := b'\<rparr>))
              = fst (get_cond h top_prior)" for b'
    using assms by (simp_all add: get_cond_def Let_def)
  have c: "fst (get_cond (fst (get_cond h top_prior)) top_prior) = fst (get_cond h top_prior)"
    using assms by (simp add: get_cond_def Let_def)
  from get_acts_from_array_hps [of res audio rate "fst (get_cond h top_prior)" vq
         "top_prior\<lparr>only_encode := b\<rparr>" m] b [of b]
  have "fst (fst (get_acts_from_array res audio rate (fst (get_cond h top_prior)) vq
                     (top_prior\<lparr>only_encode := b\<rparr>) m))
           = fst (get_cond h top_prior)"
    by auto
  with a c show ?thesis by simp
qed

theorem get_cond_sets_sample_length_witness:
  "fst (get_cond demo_hps demo_prior) = demo_hps\<lparr>sample_length := Some 2734080\<rparr>
   \<and> fst (get_cond (demo_hps\<lparr>sample_length := Some 2734080\<rparr>) demo_prior)
       = demo_hps\<lparr>sample_length := Some 2734080\<rparr>"
proof -
  have r: "raw_to_tokens demo_prior \<noteq> 0" by (simp add: demo_prior_def)
  have v: "((62 * sr demo_hps) div raw_to_tokens demo_prior) * raw_to_tokens demo_prior = 2734080"
    by (simp add: demo_prior_def demo_hps_def)
  note t = get_cond_sets_sample_length [OF r, of demo_hps]
  from t [THEN conjunct1] v
  have a: "fst (get_cond demo_hps demo_prior) = demo_hps\<lparr>sample_length := Some 2734080\<rparr>"
    by simp
  from t [THEN conjunct2, THEN conjunct1] a show ?thesis by simp
qed

text \<open>
  Claim C9. \<open>get_cond\<close> is given the bundle and the prior and no audio. The tensors it
  returns do not depend on the bundle's \<open>sample_length\<close>, the only field a run changes,
  nor on the prior's flag, the only thing the pipeline writes in the prior. So after
  the pipeline has run on any audio, and after any batch run over any files, \<open>get_cond\<close>
  returns the conditioning tensors it returned before: they are the same for every
  file of a run.
\<close>

theorem conditioning_constant:
  "snd (get_cond (h\<lparr>sample_length := x\<rparr>) top_prior) = snd (get_cond h top_prior)
   \<and> snd (get_cond h (top_prior\<lparr>only_encode := b\<rparr>)) = snd (get_cond h top_prior)
   \<and> snd (get_cond (fst (fst (get_acts_from_array res audio rate h vq top_prior m)))
                    (snd (fst (get_acts_from_array res audio rate h vq top_prior m))))
       = snd (get_cond h top_prior)
   \<and> snd (get_cond (w_hps (fst (embed_loop c lib od vq m ps w)))
                    (w_prior (fst (embed_loop c lib od vq m ps w))))
       = snd (get_cond (w_hps w) (w_prior w))"
  by (simp only: get_cond_sample_length_irrelevant get_cond_only_encode_irrelevant
        get_cond_after_pipeline get_cond_after_loop simp_thms)

section \<open>Preprocessing\<close>

lemma downmix_mono:
  assumes "ndim a1 = 1" and "valid a1"
  shows "downmix a1 = flat a1"
proof -
  from assms(1) obtain n where s: "shape a1 = [n]"
    by (cases "shape a1") (auto simp: ndim_def)
  with assms(2) have n: "length (flat a1) = n" by (simp add: valid_def)
  have "map (\<lambda>k. flat a1 ! k) [0..<n] = flat a1"
    using n map_nth [of "flat a1"] by simp
  then show ?thesis
    using assms(1) s by (simp add: downmix_def mean_axis0_def newaxis_def)
qed

lemma downmix_length:
  assumes "ndim a1 = 1 \<or> ndim a1 = 2"
  shows "length (downmix a1) = last (shape a1)"
proof (cases "ndim a1 = 1")
  case True
  then obtain n where "shape a1 = [n]" by (cases "shape a1") (auto simp: ndim_def)
  with True show ?thesis by (simp add: downmix_def mean_axis0_def newaxis_def)
next
  case False
  with assms have "ndim a1 = 2" by simp
  then obtain c n where "shape a1 = [c, n]"
    by (cases "shape a1"; cases "tl (shape a1)") (auto simp: ndim_def)
  with False show ?thesis by (simp add: downmix_def mean_axis0_def)
qed

lemma downmix_nonempty:
  assumes "ndim a1 = 1 \<or> ndim a1 = 2" and "valid a1" and "flat a1 \<noteq> []"
  shows "downmix a1 \<noteq> []"
proof (cases "ndim a1 = 1")
  case True
  with assms show ?thesis by (simp add: downmix_mono)
next
  case False
  with assms have "ndim a1 = 2" by simp
  then obtain c n where s: "shape a1 = [c, n]"
    by (cases "shape a1"; cases "tl (shape a1)") (auto simp: ndim_def)
  with assms(2,3) have "0 < n" by (cases n) (auto simp: valid_def)
  with s assms(1) have "0 < length (downmix a1)" by (simp add: downmix_length)
  then show ?thesis by auto
qed



lemma preprocess_audio_unfold:
  assumes "resample audio rate JUKEBOX_SAMPLE_RATE = Inr a1" and "ndim a1 = 1 \<or> ndim a1 = 2"
    and "downmix a1 \<noteq> []"
  shows "preprocess_audio resample audio rate
           = Inr \<lparr>shape = [length (downmix a1)],
                  flat = (if 0 < Max (set (map abs (downmix a1)))
                          then map (\<lambda>x. x / Max (set (map abs (downmix a1)))) (downmix a1)
                          else downmix a1)\<rparr>"
proof -
  have two: "ndim (if ndim a1 = 1 then newaxis a1 else a1) = 2"
    using assms(2) by (auto simp: ndim_def newaxis_def)
  show ?thesis
    using assms(1,3) two
    by (simp add: preprocess_audio_def Let_def downmix_def flatten_def)
qed

lemma preprocess_audio_result_shape:
  assumes "preprocess_audio resample audio rate = Inr out"
  shows "ndim out = 1 \<and> valid out"
  using assms
  by (auto simp: preprocess_audio_def Let_def flatten_def ndim_def valid_def
      split: sum.splits if_splits)





lemma resample_heap_value:
  "result_value (resample_heap res ri h a orig target) = res (read_array h a) orig target"
  by (auto simp: result_value_def resample_heap_def alloc_def read_array_def split: sum.splits)

lemma resample_heap_frame:
  assumes "b < length h"
  shows "fst (resample_heap res ri h a orig target) ! b = h ! b"
    and "length h \<le> length (fst (resample_heap res ri h a orig target))"
  using assms
  by (auto simp: resample_heap_def alloc_def nth_append split: sum.splits)

lemma preprocess_audio_heap_value:
  "result_value (preprocess_audio_heap res ri h a rate) = preprocess_audio res (read_array h a) rate"
proof (cases "res (read_array h a) rate JUKEBOX_SAMPLE_RATE")
  case (Inl e)
  then show ?thesis
    by (simp add: preprocess_audio_heap_def preprocess_audio_def resample_heap_def result_value_def)
next
  case (Inr v)
  obtain h1 a1 where r: "resample_heap res ri h a rate JUKEBOX_SAMPLE_RATE = (h1, Inr a1)"
    and v: "read_array h1 a1 = v"
    using Inr resample_heap_value [of res ri h a rate JUKEBOX_SAMPLE_RATE]
    by (cases "resample_heap res ri h a rate JUKEBOX_SAMPLE_RATE")
       (auto simp: result_value_def split: sum.splits)
  have p: "res (read_array h a) rate JUKEBOX_SAMPLE_RATE = Inr (read_array h1 a1)"
    using Inr v by simp
  show ?thesis
    by (auto simp: preprocess_audio_heap_def preprocess_audio_def result_value_def Let_def
          p [unfolded read_array_def] r alloc_def read_array_def flatten_def ndim_def
          newaxis_def nth_append)
qed

lemma preprocess_audio_heap_frame:
  assumes "b < length h"
  shows "fst (preprocess_audio_heap res ri h a rate) ! b = h ! b"
proof -
  obtain h1 r1 where r: "resample_heap res ri h a rate JUKEBOX_SAMPLE_RATE = (h1, r1)"
    by (cases "resample_heap res ri h a rate JUKEBOX_SAMPLE_RATE")
  from resample_heap_frame [OF assms, of res ri a rate JUKEBOX_SAMPLE_RATE] r
  have f: "h1 ! b = h ! b" and l: "b < length h1" using assms by simp_all
  show ?thesis
    using f l
    by (auto simp: preprocess_audio_heap_def r alloc_def Let_def nth_append split: sum.splits)
qed

lemma preprocess_audio_heap_length:
  "length h \<le> length (fst (preprocess_audio_heap res ri h a rate))"
proof -
  obtain h1 r1 where r: "resample_heap res ri h a rate JUKEBOX_SAMPLE_RATE = (h1, r1)"
    by (cases "resample_heap res ri h a rate JUKEBOX_SAMPLE_RATE")
  have "length h \<le> length h1"
    using r by (auto simp: resample_heap_def alloc_def split: sum.splits if_splits)
  then show ?thesis
    by (auto simp: preprocess_audio_heap_def r alloc_def Let_def split: sum.splits)
qed

lemma preprocess_audio_heap_allocated:
  assumes "snd (preprocess_audio_heap res ri h a rate) = Inr out"
  shows "buf out < length (fst (preprocess_audio_heap res ri h a rate))"
proof -
  obtain h1 r1 where r: "resample_heap res ri h a rate JUKEBOX_SAMPLE_RATE = (h1, r1)"
    by (cases "resample_heap res ri h a rate JUKEBOX_SAMPLE_RATE")
  show ?thesis
    using assms
    by (auto simp: preprocess_audio_heap_def r alloc_def Let_def split: sum.splits if_splits)
qed

lemma preprocess_audio_heap_input:
  assumes "buf a < length h"
  shows "read_array (fst (preprocess_audio_heap res ri h a rate)) a = read_array h a"
  using preprocess_audio_heap_frame [OF assms] by (simp add: read_array_def)

lemma preprocess_audio_heap_again:
  assumes "buf a < length h"
  shows "result_value (preprocess_audio_heap res ri (fst (preprocess_audio_heap res ri h a rate)) a rate)
           = result_value (preprocess_audio_heap res ri h a rate)"
  by (simp only: preprocess_audio_heap_value preprocess_audio_heap_input [OF assms])

lemma preprocess_audio_heap_kept:
  assumes "snd (preprocess_audio_heap res ri h a rate) = Inr out"
  shows "read_array (fst (preprocess_audio_heap res ri
                            (fst (preprocess_audio_heap res ri h a rate)) a rate)) out
           = read_array (fst (preprocess_audio_heap res ri h a rate)) out"
  using preprocess_audio_heap_frame [OF preprocess_audio_heap_allocated [OF assms]]
  by (simp add: read_array_def)

text \<open>
  Claim C8. Whenever \<open>preprocess_audio\<close> returns a buffer, for any input, the buffer is
  valid and has exactly one axis. It does return for every input whose resampled array
  is valid, has one axis (mono) or two (channels by samples) and at least one sample,
  with one sample per time step of that array. And it is deterministic as a procedure
  on array objects: a call leaves the caller's array as it was, although it divides in
  place; what it returns is the value of the function \<open>preprocess_audio\<close> on the
  contents of that array; so a second call on the same array and sample rate returns
  an equal buffer, and leaves the buffer returned by the first call as it was.
\<close>

theorem preprocess_audio_one_dimensional:
  "(\<forall>out. preprocess_audio resample audio rate = Inr out \<longrightarrow> ndim out = 1 \<and> valid out)
   \<and> (resample audio rate JUKEBOX_SAMPLE_RATE = Inr a1 \<and> valid a1 \<and> flat a1 \<noteq> []
        \<and> (ndim a1 = 1 \<or> ndim a1 = 2) \<longrightarrow>
        (\<exists>out. preprocess_audio resample audio rate = Inr out \<and> shape out = [last (shape a1)]))
   \<and> (buf a < length h \<longrightarrow>
        read_array (fst (preprocess_audio_heap resample ri h a rate)) a = read_array h a
        \<and> result_value (preprocess_audio_heap resample ri h a rate)
            = preprocess_audio resample (read_array h a) rate
        \<and> result_value (preprocess_audio_heap resample ri
                            (fst (preprocess_audio_heap resample ri h a rate)) a rate)
            = result_value (preprocess_audio_heap resample ri h a rate)
        \<and> (\<forall>out. snd (preprocess_audio_heap resample ri h a rate) = Inr out \<longrightarrow>
              read_array (fst (preprocess_audio_heap resample ri
                                 (fst (preprocess_audio_heap resample ri h a rate)) a rate)) out
                = read_array (fst (preprocess_audio_heap resample ri h a rate)) out))"
proof -
  have a: "ndim out = 1 \<and> valid out" if "preprocess_audio resample audio rate = Inr out" for out
    using that by (rule preprocess_audio_result_shape)
  have b: "\<exists>out. preprocess_audio resample audio rate = Inr out \<and> shape out = [last (shape a1)]"
    if r: "resample audio rate JUKEBOX_SAMPLE_RATE = Inr a1" and v: "valid a1"
      and n: "flat a1 \<noteq> []" and k: "ndim a1 = 1 \<or> ndim a1 = 2"
  proof -
    have ne: "downmix a1 \<noteq> []" using k v n by (rule downmix_nonempty)
    note u = preprocess_audio_unfold [of resample audio rate a1, OF r k ne]
    show ?thesis unfolding u using k by (simp add: downmix_length)
  qed
  have c: "read_array (fst (preprocess_audio_heap resample ri h a rate)) a = read_array h a"
    if "buf a < length h"
    using that by (rule preprocess_audio_heap_input)
  have d: "result_value (preprocess_audio_heap resample ri h a rate)
            = preprocess_audio resample (read_array h a) rate"
    by (rule preprocess_audio_heap_value)
  have e: "result_value (preprocess_audio_heap resample ri
                            (fst (preprocess_audio_heap resample ri h a rate)) a rate)
            = result_value (preprocess_audio_heap resample ri h a rate)"
    if "buf a < length h"
    using that by (rule preprocess_audio_heap_again)
  have f: "read_array (fst (preprocess_audio_heap resample ri
                                 (fst (preprocess_audio_heap resample ri h a rate)) a rate)) out
                = read_array (fst (preprocess_audio_heap resample ri h a rate)) out"
    if "snd (preprocess_audio_heap resample ri h a rate) = Inr out" for out
    using that by (rule preprocess_audio_heap_kept)
  from a b c d e f show ?thesis by blast
qed

theorem preprocess_audio_one_dimensional_witness:
  "(\<exists>out. preprocess_audio same_rate stereo_cancel 44100 = Inr out \<and> ndim out = 1 \<and> shape out = [1])
   \<and> (\<exists>out. preprocess_audio same_rate mono_pair 44100 = Inr out \<and> ndim out = 1 \<and> shape out = [2])
   \<and> read_array (fst (preprocess_audio_heap same_rate True [[1 / 2, - 2]]
                         \<lparr>buf = 0, dims = [2]\<rparr> 44100)) \<lparr>buf = 0, dims = [2]\<rparr>
       = mono_pair
   \<and> result_value (preprocess_audio_heap same_rate True [[1 / 2, - 2]] \<lparr>buf = 0, dims = [2]\<rparr> 44100)
       = Inr \<lparr>shape = [2], flat = [1 / 4, - 1]\<rparr>
   \<and> result_value (preprocess_audio_heap same_rate True
                      (fst (preprocess_audio_heap same_rate True [[1 / 2, - 2]]
                              \<lparr>buf = 0, dims = [2]\<rparr> 44100))
                      \<lparr>buf = 0, dims = [2]\<rparr> 44100)
       = Inr \<lparr>shape = [2], flat = [1 / 4, - 1]\<rparr>"
proof -
  have r: "same_rate a 44100 JUKEBOX_SAMPLE_RATE = Inr a" for a
    by (simp add: same_rate_def JUKEBOX_SAMPLE_RATE_def)
  have s: "valid stereo_cancel" "flat stereo_cancel \<noteq> []"
      "ndim stereo_cancel = 1 \<or> ndim stereo_cancel = 2"
    by (simp_all add: stereo_cancel_def valid_def ndim_def)
  note t = preprocess_audio_one_dimensional [of same_rate stereo_cancel 44100 stereo_cancel]
  from t [THEN conjunct2, THEN conjunct1] r s
  obtain out where o: "preprocess_audio same_rate stereo_cancel 44100 = Inr out"
      "shape out = [last (shape stereo_cancel)]"
    by blast
  from t [THEN conjunct1] o(1) have "ndim out = 1" by blast
  with o have a: "\<exists>out. preprocess_audio same_rate stereo_cancel 44100 = Inr out \<and> ndim out = 1
                     \<and> shape out = [1]"
    by (simp add: stereo_cancel_def)
  have m: "valid mono_pair" "flat mono_pair \<noteq> []" "ndim mono_pair = 1 \<or> ndim mono_pair = 2"
    by (simp_all add: mono_pair_def valid_def ndim_def)
  note t' = preprocess_audio_one_dimensional
              [of same_rate mono_pair 44100 mono_pair "\<lparr>buf = 0, dims = [2]\<rparr>" "[[1 / 2, - 2]]" True]
  from t' [THEN conjunct2, THEN conjunct1] r m
  obtain out' where o': "preprocess_audio same_rate mono_pair 44100 = Inr out'"
      "shape out' = [last (shape mono_pair)]"
    by blast
  from t' [THEN conjunct1] o'(1) have "ndim out' = 1" by blast
  with o' have b: "\<exists>out. preprocess_audio same_rate mono_pair 44100 = Inr out \<and> ndim out = 1
                     \<and> shape out = [2]"
    by (simp add: mono_pair_def)
  have i: "buf \<lparr>buf = 0, dims = [2]\<rparr> < length [[1 / 2, - 2 :: real]]" by simp
  have ra: "read_array [[1 / 2, - 2]] \<lparr>buf = 0, dims = [2]\<rparr> = mono_pair"
    by (simp add: read_array_def mono_pair_def)
  have p: "preprocess_audio same_rate mono_pair 44100 = Inr \<lparr>shape = [2], flat = [1 / 4, - 1]\<rparr>"
    by (simp add: preprocess_audio_def same_rate_def mono_pair_def JUKEBOX_SAMPLE_RATE_def
        ndim_def newaxis_def mean_axis0_def flatten_def Let_def upt_conv_Cons)
  note h = t' [THEN conjunct2, THEN conjunct2, rule_format, OF i]
  from h [THEN conjunct1] ra
  have c: "read_array (fst (preprocess_audio_heap same_rate True [[1 / 2, - 2]]
                         \<lparr>buf = 0, dims = [2]\<rparr> 44100)) \<lparr>buf = 0, dims = [2]\<rparr>
       = mono_pair"
    by simp
  from h [THEN conjunct2, THEN conjunct1] ra p
  have d: "result_value (preprocess_audio_heap same_rate True [[1 / 2, - 2]] \<lparr>buf = 0, dims = [2]\<rparr> 44100)
       = Inr \<lparr>shape = [2], flat = [1 / 4, - 1]\<rparr>"
    by simp
  from h [THEN conjunct2, THEN conjunct2, THEN conjunct1] d
  have e: "result_value (preprocess_audio_heap same_rate True
                      (fst (preprocess_audio_heap same_rate True [[1 / 2, - 2]]
                              \<lparr>buf = 0, dims = [2]\<rparr> 44100))
                      \<lparr>buf = 0, dims = [2]\<rparr> 44100)
       = Inr \<lparr>shape = [2], flat = [1 / 4, - 1]\<rparr>"
    by simp
  from a b c d e show ?thesis by (intro conjI)
qed

section \<open>The batch driver\<close>

lemma embed_loop_append_cached:
  "embed_loop True lib od vq m (xs @ ys) w
     = (case embed_loop True lib od vq m xs w of
          (w1, None) \<Rightarrow> embed_loop True lib od vq m ys w1
        | (w1, Some e) \<Rightarrow> (w1, Some e))"
  by (induction xs arbitrary: w) (simp_all add: Let_def split: sum.splits prod.splits)

lemma embed_loop_append_uncached:
  "embed_loop False lib od vq m (xs @ ys) w
     = (case embed_loop False lib od vq m xs w of
          (w1, None) \<Rightarrow> embed_loop False lib od vq m ys w1
        | (w1, Some e) \<Rightarrow> (w1, Some e))"
  by (induction xs arbitrary: w) (simp_all add: Let_def split: sum.splits prod.splits)

lemma embed_loop_append:
  "embed_loop c lib od vq m (xs @ ys) w
     = (case embed_loop c lib od vq m xs w of
          (w1, None) \<Rightarrow> embed_loop c lib od vq m ys w1
        | (w1, Some e) \<Rightarrow> (w1, Some e))"
  by (cases c) (simp_all only: embed_loop_append_cached embed_loop_append_uncached)

lemma np_save_files:
  assumes "np_save fs p a = Inr fs'"
  shows "files fs' = (files fs)(p \<mapsto> NpyFile a) \<and> dirs fs' = dirs fs"
  using assms by (auto simp: np_save_def split: if_splits)

lemma embed_loop_frame_cached:
  assumes "q \<notin> output_path_of od ` set ps"
  shows "files (w_fs (fst (embed_loop True lib od vq m ps w))) q = files (w_fs w) q"
  using assms
  by (induction ps arbitrary: w)
     (auto simp: Let_def output_path_of_def dest!: np_save_files split: sum.splits prod.splits)

lemma embed_loop_frame_uncached:
  assumes "q \<notin> output_path_of od ` set ps"
  shows "files (w_fs (fst (embed_loop False lib od vq m ps w))) q = files (w_fs w) q"
  using assms
  by (induction ps arbitrary: w)
     (auto simp: Let_def output_path_of_def dest!: np_save_files split: sum.splits prod.splits)

lemma embed_loop_frame:
  assumes "q \<notin> output_path_of od ` set ps"
  shows "files (w_fs (fst (embed_loop c lib od vq m ps w))) q = files (w_fs w) q"
  using assms by (cases c) (simp_all add: embed_loop_frame_cached embed_loop_frame_uncached)

lemma get_z_short:
  assumes "slice_to (nat (JUKEBOX_SAMPLE_RATE * 25)) audio = Inr a3" and "batch_channel a3 = Inr a4"
    and "encode vq a4 = Inr zs" and "zs \<noteq> []" and "length (last zs) < 8192"
  shows "get_z audio vq = Inl (ValueError ''Audio file is not long enough'')"
  using assms by (simp add: get_z_def Let_def)

lemma get_acts_from_array_get_z_error:
  assumes "preprocess_audio resample audio rate = Inr a1" and "zero_padding a1 = Inr a2"
    and "get_z a2 vq = Inl e"
  shows "get_acts_from_array resample audio rate h vq tp m = ((h, tp), Inl e)"
  using assms by (simp add: get_acts_from_array_def)

lemma embed_loop_error_at:
  assumes "embed_loop False lib od vq m pre w = (w1, None)"
    and "get_acts_from_file lib p (w_hps w1) vq (w_prior w1) m = ((w_hps w1, w_prior w1), Inl e)"
  shows "embed_loop False lib od vq m (pre @ p # post) w = (w1, Some e)"
  using assms by (simp add: embed_loop_append Let_def)

lemma embed_loop_uncached_step:
  assumes "get_acts_from_file lib p h vq tp m = ((h', tp'), Inr r)"
    and "od \<in> dirs fs" and "files fs (output_path_of od p) \<noteq> Some Directory"
  shows "embed_loop False lib od vq m (p # ps) \<lparr>w_hps = h, w_prior = tp, w_fs = fs\<rparr>
           = embed_loop False lib od vq m ps
               \<lparr>w_hps = h', w_prior = tp',
                w_fs = fs\<lparr>files := (files fs)(output_path_of od p \<mapsto> NpyFile r)\<rparr>\<rparr>"
  using assms by (simp add: Let_def output_path_of_def np_save_def)

lemma demo_pipeline_from:
  "get_acts_from_file demo_lib (''in'', n) (demo_hps\<lparr>sample_length := x\<rparr>) long_vq
       (demo_prior\<lparr>only_encode := b\<rparr>) 32
     = ((demo_hps\<lparr>sample_length := Some 2734080\<rparr>, demo_prior\<lparr>only_encode := True\<rparr>),
        pooling float32_ops ramp_acts 32)"
proof -
  let ?a = "\<lparr>shape = [2], flat = [1 / 4, - 1]\<rparr>"
  have p: "preprocess_audio same_rate mono_pair JUKEBOX_SAMPLE_RATE = Inr ?a"
    by (simp add: preprocess_audio_def same_rate_def mono_pair_def
        ndim_def newaxis_def mean_axis0_def flatten_def Let_def upt_conv_Cons)
  have l: "load_audio_from_file demo_lib (''in'', n) = Inr ?a"
    using p by (simp add: load_audio_from_file_def demo_lib_def)
  have q: "preprocess_audio same_rate ?a JUKEBOX_SAMPLE_RATE = Inr ?a"
    by (simp add: preprocess_audio_def same_rate_def
        ndim_def newaxis_def mean_axis0_def flatten_def Let_def upt_conv_Cons)
  have z: "get_z a long_vq = Inr (replicate 8192 0)" if "shape a \<noteq> []" for a
    using that by (cases "shape a") (simp_all add: get_z_def slice_to_def batch_channel_def long_vq_def)
  have pad: "\<exists>b. zero_padding ?a = Inr b \<and> shape b \<noteq> []"
    by (simp add: zero_padding_def audio_padding_def SAMPLE_LENGTH_def)
  then obtain c where c: "zero_padding ?a = Inr c" "shape c \<noteq> []" by blast
  have g: "get_cond (demo_hps\<lparr>sample_length := x\<rparr>) (demo_prior\<lparr>only_encode := b\<rparr>)
             = (demo_hps\<lparr>sample_length := Some 2734080\<rparr>,
                Inr (\<lparr>shape = [1, 1, 1], flat = [0]\<rparr>, \<lparr>shape = [1, 1], flat = [0]\<rparr>))"
    by (simp add: get_cond_def demo_hps_def demo_prior_def first_rows_def first_item_def T_def Let_def)
  have f: "get_final_activations zz xc yc (demo_prior\<lparr>only_encode := b\<rparr>)
             = (demo_prior\<lparr>only_encode := True\<rparr>, Inr ramp_acts)"
    for zz xc yc
    by (simp add: get_final_activations_def demo_prior_def Let_def)
  have t: "torch (demo_prior\<lparr>only_encode := True\<rparr>) = float32_ops"
    by (simp add: demo_prior_def)
  show ?thesis
    using l q c z [OF c(2)] g f t
    by (simp add: get_acts_from_file_def get_acts_from_array_def demo_lib_def)
qed

lemma demo_pipeline:
  "get_acts_from_file demo_lib (''in'', n) demo_hps long_vq demo_prior 32
     = ((demo_hps\<lparr>sample_length := Some 2734080\<rparr>, demo_prior\<lparr>only_encode := True\<rparr>),
        pooling float32_ops ramp_acts 32)"
proof -
  have "demo_hps\<lparr>sample_length := None\<rparr> = demo_hps" "demo_prior\<lparr>only_encode := False\<rparr> = demo_prior"
    by (simp_all add: demo_hps_def demo_prior_def)
  with demo_pipeline_from [of n None False] show ?thesis by simp
qed

text \<open>
  Claim C2. Let an input be loaded, preprocessed and padded without error, and let the
  codec return for it a coarsest level of fewer than 8192 tokens. Then \<open>get_z\<close> raises
  ValueError with the message \<^verbatim>\<open>Audio file is not long enough\<close>; the pipeline for that
  file raises the same error and leaves bundle and prior as they were; the loop of the
  driver stops there with that error, in the state the earlier files left; and so does
  \<open>embed_from_folder\<close>. The file system is the one the earlier files left: nothing is
  written for that input, and unless an earlier input has the same output path the
  entry at its output path is what it was before the run.
\<close>

theorem short_token_sequence_aborts:
  assumes "load_vqvae_and_prior jb vqvae_path prior_path device = Inr (vq, top_prior, h)"
    and "filter (\<lambda>x. endswith (snd x) ''.wav'') (sort (map (\<lambda>n. (input_dir, n)) names))
           = pre @ p # post"
    and "embed_loop False lib output_dir vq m pre \<lparr>w_hps = h, w_prior = top_prior, w_fs = fs\<rparr>
           = (w1, None)"
    and "load_audio_from_file lib p = Inr a0"
    and "preprocess_audio (lr_resample lib) a0 JUKEBOX_SAMPLE_RATE = Inr a1"
    and "zero_padding a1 = Inr a2"
    and "slice_to (nat (JUKEBOX_SAMPLE_RATE * 25)) a2 = Inr a3"
    and "batch_channel a3 = Inr a4"
    and "encode vq a4 = Inr zs" and "zs \<noteq> []" and "length (last zs) < 8192"
  shows "get_z a2 vq = Inl (ValueError ''Audio file is not long enough'')
       \<and> get_acts_from_file lib p (w_hps w1) vq (w_prior w1) m
           = ((w_hps w1, w_prior w1), Inl (ValueError ''Audio file is not long enough''))
       \<and> embed_loop False lib output_dir vq m (pre @ p # post)
             \<lparr>w_hps = h, w_prior = top_prior, w_fs = fs\<rparr>
           = (w1, Some (ValueError ''Audio file is not long enough''))
       \<and> embed_from_folder lib jb names fs input_dir output_dir vqvae_path prior_path m device
           = (w_fs w1, Some (ValueError ''Audio file is not long enough''))
       \<and> (output_path_of output_dir p \<notin> output_path_of output_dir ` set pre \<longrightarrow>
            files (w_fs w1) (output_path_of output_dir p) = files fs (output_path_of output_dir p))"
proof -
  have z: "get_z a2 vq = Inl (ValueError ''Audio file is not long enough'')"
    using assms(7-11) by (rule get_z_short)
  have f: "get_acts_from_file lib p (w_hps w1) vq (w_prior w1) m
             = ((w_hps w1, w_prior w1), Inl (ValueError ''Audio file is not long enough''))"
    using assms(4) get_acts_from_array_get_z_error [OF assms(5,6) z]
    by (simp add: get_acts_from_file_def)
  have l: "embed_loop False lib output_dir vq m (pre @ p # post)
             \<lparr>w_hps = h, w_prior = top_prior, w_fs = fs\<rparr>
           = (w1, Some (ValueError ''Audio file is not long enough''))"
    using assms(3) f by (rule embed_loop_error_at)
  have e: "embed_from_folder lib jb names fs input_dir output_dir vqvae_path prior_path m device
           = (w_fs w1, Some (ValueError ''Audio file is not long enough''))"
    using assms(1) l by (simp add: embed_from_folder_def assms(2))
  have k: "files (w_fs w1) (output_path_of output_dir p) = files fs (output_path_of output_dir p)"
    if "output_path_of output_dir p \<notin> output_path_of output_dir ` set pre"
    using embed_loop_frame [OF that, of False lib vq m "\<lparr>w_hps = h, w_prior = top_prior, w_fs = fs\<rparr>"]
    by (simp add: assms(3))
  from z f l e k show ?thesis by blast
qed

theorem short_token_sequence_aborts_witness:
  "embed_from_folder demo_lib (demo_jukebox short_vq) [''notes.txt'', ''clip.wav''] demo_fs
       ''in'' ''out'' ''vqvae.pth.tar'' ''prior.pth.tar'' 32 ''cpu''
     = (demo_fs, Some (ValueError ''Audio file is not long enough''))
   \<and> files demo_fs (''out'', ''clip.npy'') = None"
proof -
  let ?a = "\<lparr>shape = [2], flat = [1 / 4, - 1]\<rparr>"
  let ?b = "\<lparr>shape = [1048576], flat = [1 / 4, - 1] @ replicate 1048574 0\<rparr>"
  let ?w = "\<lparr>w_hps = demo_hps, w_prior = demo_prior, w_fs = demo_fs\<rparr>"
  have 1: "load_vqvae_and_prior (demo_jukebox short_vq) ''vqvae.pth.tar'' ''prior.pth.tar'' ''cpu''
             = Inr (short_vq, demo_prior, demo_hps)"
    by (simp add: load_vqvae_and_prior_def demo_jukebox_def demo_hps_def)
  have 2: "filter (\<lambda>x. endswith (snd x) ''.wav'')
             (sort (map (\<lambda>n. (''in'', n)) [''notes.txt'', ''clip.wav'']))
           = [] @ (''in'', ''clip.wav'') # []"
    by (simp add: endswith_def)
  have 3: "embed_loop False demo_lib ''out'' short_vq 32 [] ?w = (?w, None)"
    by simp
  have p: "preprocess_audio same_rate mono_pair JUKEBOX_SAMPLE_RATE = Inr ?a"
    by (simp add: preprocess_audio_def same_rate_def mono_pair_def
        ndim_def newaxis_def mean_axis0_def flatten_def Let_def upt_conv_Cons)
  have 4: "load_audio_from_file demo_lib (''in'', ''clip.wav'') = Inr ?a"
    using p by (simp add: load_audio_from_file_def demo_lib_def)
  have 5: "preprocess_audio (lr_resample demo_lib) ?a JUKEBOX_SAMPLE_RATE = Inr ?a"
    by (simp add: preprocess_audio_def same_rate_def demo_lib_def
        ndim_def newaxis_def mean_axis0_def flatten_def Let_def upt_conv_Cons)
  have 6: "zero_padding ?a = Inr ?b"
    by (simp add: zero_padding_def audio_padding_def SAMPLE_LENGTH_def)
  have 7: "slice_to (nat (JUKEBOX_SAMPLE_RATE * 25)) ?b
             = Inr (projr (slice_to (nat (JUKEBOX_SAMPLE_RATE * 25)) ?b))"
    by (simp add: slice_to_def)
  have 8: "batch_channel (projr (slice_to (nat (JUKEBOX_SAMPLE_RATE * 25)) ?b))
             = Inr (projr (batch_channel (projr (slice_to (nat (JUKEBOX_SAMPLE_RATE * 25)) ?b))))"
    by (simp add: slice_to_def batch_channel_def)
  have 9: "encode short_vq (projr (batch_channel (projr (slice_to (nat (JUKEBOX_SAMPLE_RATE * 25)) ?b))))
             = Inr [[], [], replicate 10 0]"
    by (simp add: short_vq_def)
  have 10: "[[], [], replicate 10 (0::int)] \<noteq> []" "length (last [[], [], replicate 10 (0::int)]) < 8192"
    by simp_all
  note t = short_token_sequence_aborts [OF 1 2 3 4 5 6 7 8 9 10]
  from t [THEN conjunct2, THEN conjunct2, THEN conjunct2, THEN conjunct1]
  show ?thesis by (simp add: demo_fs_def)
qed

text \<open>
  Claim C6, as amended. With the cache flag enabled and an entry at the output path of
  an input: when \<^verbatim>\<open>np.load\<close> reads the entry, the array is dropped and the loop goes on to
  the next input with bundle, prior and file system untouched, so the pipeline is not
  run for that input; when \<^verbatim>\<open>np.load\<close> raises, the loop stops with that error.
\<close>

theorem cache_branch_skips:
  assumes "path_exists (w_fs w) (output_path_of od p)"
  shows "(np_load (w_fs w) (output_path_of od p) = Inr cached \<longrightarrow>
            embed_loop True lib od vq m (p # ps) w = embed_loop True lib od vq m ps w)
       \<and> (np_load (w_fs w) (output_path_of od p) = Inl e \<longrightarrow>
            embed_loop True lib od vq m (p # ps) w = (w, Some e))
       \<and> (files (w_fs w) (output_path_of od p) = Some (NpyFile a) \<longrightarrow>
            embed_loop True lib od vq m [p] w = (w, None))"
  using assms by (simp add: output_path_of_def Let_def np_load_def)

theorem cache_branch_skips_witness:
  "embed_loop True demo_lib ''out'' short_vq 32 [(''in'', ''track1.wav'')]
       \<lparr>w_hps = demo_hps, w_prior = demo_prior, w_fs = demo_fs\<rparr>
     = (\<lparr>w_hps = demo_hps, w_prior = demo_prior, w_fs = demo_fs\<rparr>, None)"
proof -
  let ?w = "\<lparr>w_hps = demo_hps, w_prior = demo_prior, w_fs = demo_fs\<rparr>"
  have o: "output_path_of ''out'' (''in'', ''track1.wav'') = (''out'', ''track1.npy'')"
    by (simp add: output_path_of_def stem_def rfind_def upt_conv_Cons)
  have e: "path_exists (w_fs ?w) (output_path_of ''out'' (''in'', ''track1.wav''))"
    by (simp add: o path_exists_def demo_fs_def)
  have f: "files (w_fs ?w) (output_path_of ''out'' (''in'', ''track1.wav''))
             = Some (NpyFile \<lparr>shape = [1], flat = [7]\<rparr>)"
    by (simp add: o demo_fs_def)
  from cache_branch_skips [OF e, THEN conjunct2, THEN conjunct2] f
  show ?thesis by simp
qed

text \<open>
  The claim as stated, that the enabled cache branch does not prevent recomputation,
  fails: with the flag enabled and \<^verbatim>\<open>out/track1.npy\<close> present, the loop over
  \<^verbatim>\<open>in/track1.wav\<close> ends without an error and with the state it started in, while the
  pipeline on that file changes the bundle, as the loop with the flag disabled does.
\<close>

theorem cache_branch_counterexample:
  "path_exists demo_fs (''out'', ''track1.npy'')
   \<and> embed_loop True demo_lib ''out'' long_vq 32 [(''in'', ''track1.wav'')]
         \<lparr>w_hps = demo_hps, w_prior = demo_prior, w_fs = demo_fs\<rparr>
       = (\<lparr>w_hps = demo_hps, w_prior = demo_prior, w_fs = demo_fs\<rparr>, None)
   \<and> fst (fst (get_acts_from_file demo_lib (''in'', ''track1.wav'') demo_hps long_vq demo_prior 32))
       \<noteq> demo_hps
   \<and> fst (embed_loop False demo_lib ''out'' long_vq 32 [(''in'', ''track1.wav'')]
              \<lparr>w_hps = demo_hps, w_prior = demo_prior, w_fs = demo_fs\<rparr>)
       \<noteq> \<lparr>w_hps = demo_hps, w_prior = demo_prior, w_fs = demo_fs\<rparr>"
proof -
  have o: "stem ''track1.wav'' = ''track1''"
    by (simp add: stem_def rfind_def upt_conv_Cons)
  have a: "path_exists demo_fs (''out'', ''track1.npy'')"
    by (simp add: path_exists_def demo_fs_def)
  have b: "embed_loop True demo_lib ''out'' long_vq 32 [(''in'', ''track1.wav'')]
         \<lparr>w_hps = demo_hps, w_prior = demo_prior, w_fs = demo_fs\<rparr>
       = (\<lparr>w_hps = demo_hps, w_prior = demo_prior, w_fs = demo_fs\<rparr>, None)"
    using a by (simp add: o Let_def np_load_def) (simp add: demo_fs_def)
  have c: "fst (fst (get_acts_from_file demo_lib (''in'', ''track1.wav'') demo_hps long_vq demo_prior 32))
       \<noteq> demo_hps"
    by (simp add: demo_pipeline) (simp add: demo_hps_def)
  have s: "shape ramp_acts = [8192, 4800]" by (simp add: ramp_acts_def)
  have v: "valid ramp_acts" by (simp add: ramp_acts_def valid_def length_ramp)
  from pooling_rows [OF s v, of 32 float32_ops]
  obtain r where r: "pooling float32_ops ramp_acts 32 = Inr r" by auto
  have g: "get_acts_from_file demo_lib (''in'', ''track1.wav'') demo_hps long_vq demo_prior 32
             = ((demo_hps\<lparr>sample_length := Some 2734080\<rparr>, demo_prior\<lparr>only_encode := True\<rparr>), Inr r)"
    by (simp add: demo_pipeline r)
  have k: "''out'' \<in> dirs demo_fs"
      "files demo_fs (output_path_of ''out'' (''in'', ''track1.wav'')) \<noteq> Some Directory"
    by (simp_all add: output_path_of_def o demo_fs_def)
  have "w_hps (fst (embed_loop False demo_lib ''out'' long_vq 32 [(''in'', ''track1.wav'')]
              \<lparr>w_hps = demo_hps, w_prior = demo_prior, w_fs = demo_fs\<rparr>))
          = demo_hps\<lparr>sample_length := Some 2734080\<rparr>"
    unfolding embed_loop_uncached_step [OF g k] by simp
  then have d: "fst (embed_loop False demo_lib ''out'' long_vq 32 [(''in'', ''track1.wav'')]
              \<lparr>w_hps = demo_hps, w_prior = demo_prior, w_fs = demo_fs\<rparr>)
       \<noteq> \<lparr>w_hps = demo_hps, w_prior = demo_prior, w_fs = demo_fs\<rparr>"
    by (auto simp: demo_hps_def)
  from a b c d show ?thesis by simp
qed




end
